theory Spec2Isabelle
  imports Main "HOL-Library.Word"
begin

section \<open>The ProcessGroupAgent of torch/csrc/distributed/rpc/process_group_agent.cpp\<close>

text \<open>
  A shallow embedding of the RPC agent: the wire codec (\<open>serialize\<close>, \<open>deserialize\<close>),
  the constructor, \<open>getWorkerId\<close>, \<open>send\<close> and the receive job of \<open>enqueueRecv\<close>.
  State is passed explicitly in a record of the agent's members; every \<open>TORCH_CHECK\<close>,
  \<open>AT_ERROR\<close> and every unchecked access of the source is a branch that returns an error
  value. A member \<open>x_\<close> of the source is the field \<open>x_'\<close> here, since a name cannot
  end with an underscore. \<open>join\<close>, \<open>sync\<close>, \<open>listenLoop\<close> and the job of
  \<open>enqueueSend\<close> talk to the transport only and are not part of the embedding.
\<close>

subsection \<open>Failures\<close>

text \<open>
  \<open>TORCH_CHECK(cond, args...)\<close> and \<open>AT_ERROR(args...)\<close> throw a \<open>c10::Error\<close> whose
  message is the concatenation of the arguments; the message is kept as the list of its
  parts. An access the source does not guard (an index outside a vector, a null
  \<open>shared_ptr\<close> dereferenced, a read past a buffer) has no diagnostic at all: it is
  undefined behaviour, kept apart from the diagnosed failures. \<open>Thrown\<close> is an exception
  raised by a collaborator (\<open>torch::load\<close>).
\<close>

text \<open>
  Modelled from the spec: \<open>MessageType\<close> is declared in message.h, which is not among
  the sources of the agent; the spec gives \<open>enum{REQUEST, RESPONSE, SHUTDOWN}\<close>.
\<close>

datatype MessageType = REQUEST | RESPONSE | SHUTDOWN

datatype msg_part = Str string | Num int | Ty MessageType

datatype error =
    TorchCheck "msg_part list"
  | UndefinedBehaviour string
  | Thrown string

subsection \<open>Tensors\<close>

type_synonym byte = "8 word"
type_synonym int64_t = "64 word"

datatype ScalarType = kByte | kChar | kInt | kInt64 | kFloat | kDouble

text \<open>
  A tensor is its element type, its shape and the bytes of its storage. Nothing else of
  a tensor is read by the agent; the auxiliary tensors of a message pass through
  unchanged.
\<close>

record Tensor =
  dtype :: ScalarType
  sizes :: "nat list"
  storage :: "byte list"

definition numel :: "Tensor \<Rightarrow> nat" where
  "numel t = prod_list (sizes t)"

text \<open>\<open>torch::from_blob(data, n, {torch::kChar})\<close>: a one-dimensional view of \<open>n\<close> bytes.\<close>

definition from_blob :: "byte list \<Rightarrow> nat \<Rightarrow> Tensor" where
  "from_blob data n = \<lparr>dtype = kChar, sizes = [n], storage = take n data\<rparr>"

text \<open>The eight bytes of an \<open>int64_t\<close> in the byte order of the host (little-endian).\<close>

definition int64_bytes :: "int64_t \<Rightarrow> byte list" where
  "int64_bytes w = map (\<lambda>i. ucast (drop_bit (8 * i) w)) [0..<8]"

text \<open>\<open>torch::tensor({v}, {torch::kInt64})\<close>: a one-element tensor holding \<open>v\<close>.\<close>

definition tensor_int64 :: "int64_t \<Rightarrow> Tensor" where
  "tensor_int64 v = \<lparr>dtype = kInt64, sizes = [1], storage = int64_bytes v\<rparr>"

text \<open>
  \<open>t.storage().data<int64_t>()[0]\<close>: the first eight bytes of the storage read as an
  \<open>int64_t\<close>. The source does not look at the size of the storage; a storage of fewer
  than eight bytes is read past its end.
\<close>

definition int64_at0 :: "byte list \<Rightarrow> int64_t" where
  "int64_at0 bs = word_of_int (horner_sum uint (2 ^ 8) (take 8 bs))"

definition data_int64_0 :: "Tensor \<Rightarrow> error + int64_t" where
  "data_int64_0 t =
     (if length (storage t) < 8
      then Inl (UndefinedBehaviour ''read past the end of the id tensor storage'')
      else Inr (int64_at0 (storage t)))"

text \<open>
  The first \<open>n\<close> bytes at \<open>t.storage().data()\<close>, as \<open>std::memcpy\<close> and the
  \<open>std::string(ptr, n)\<close> constructor read them.
\<close>

definition storage_bytes :: "Tensor \<Rightarrow> nat \<Rightarrow> error + byte list" where
  "storage_bytes t n =
     (if length (storage t) < n
      then Inl (UndefinedBehaviour ''read past the end of the tensor storage'')
      else Inr (take n (storage t)))"

subsection \<open>Messages and the wire codec\<close>

text \<open>
  Modelled from the spec: \<open>Message\<close> is declared in message.h, which is not among the
  sources of the agent. The spec gives its four fields; the source uses the accessors
  \<open>payload()\<close>, \<open>tensors()\<close>, \<open>type()\<close>, \<open>id()\<close>, \<open>setId\<close>, \<open>isRequest()\<close>,
  \<open>isResponse()\<close>, \<open>isShutdown()\<close> and the constructor
  \<open>Message(payload, tensors, type, id)\<close>.
\<close>

record Message =
  payload :: "byte list"
  tensors :: "Tensor list"
  msg_type :: MessageType
  msg_id :: int64_t

definition isRequest :: "Message \<Rightarrow> bool" where
  "isRequest m = (msg_type m = REQUEST)"

definition isResponse :: "Message \<Rightarrow> bool" where
  "isResponse m = (msg_type m = RESPONSE)"

definition isShutdown :: "Message \<Rightarrow> bool" where
  "isShutdown m = (msg_type m = SHUTDOWN)"

definition setId :: "int64_t \<Rightarrow> Message \<Rightarrow> Message" where
  "setId i m = m\<lparr>msg_id := i\<rparr>"

text \<open>
  \<open>serialize(message, os)\<close>. \<open>torch::save\<close> is a collaborator: it is the parameter
  \<open>save\<close>, from a list of tensors to the contents of the stream.
\<close>

definition serialize :: "(Tensor list \<Rightarrow> 's) \<Rightarrow> Message \<Rightarrow> 's" where
  "serialize save message =
     (let payload_size = length (payload message);
          tensors0 = tensors message;
          tensors1 = tensors0 @ [from_blob (payload message) payload_size];
          tensors2 = tensors1 @ [tensor_int64 (msg_id message)]
      in save tensors2)"

text \<open>
  \<open>deserialize(type, is)\<close>. \<open>torch::load\<close> is the parameter \<open>load\<close>; it may throw.
\<close>

definition deserialize ::
  "('s \<Rightarrow> error + Tensor list) \<Rightarrow> MessageType \<Rightarrow> 's \<Rightarrow> error + Message" where
  "deserialize load type is =
     (case load is of
        Inl e \<Rightarrow> Inl e
      | Inr ts \<Rightarrow>
          if \<not> length ts \<ge> 2
          then Inl (TorchCheck [Str ''Failed to deserialize a message.''])
          else
            let idTensor = last ts;
                ts1 = butlast ts;
                payloadTensor = last ts1;
                ts2 = butlast ts1
            in (case data_int64_0 idTensor of
                  Inl e \<Rightarrow> Inl e
                | Inr i \<Rightarrow>
                    if numel payloadTensor > 0
                    then (case storage_bytes payloadTensor (numel payloadTensor) of
                            Inl e \<Rightarrow> Inl e
                          | Inr bytes \<Rightarrow>
                              Inr \<lparr>payload = bytes, tensors = ts2,
                                   msg_type = type, msg_id = i\<rparr>)
                    else Inr \<lparr>payload = [], tensors = ts2,
                              msg_type = type, msg_id = i\<rparr>))"

subsection \<open>Workers, the transport group and futures\<close>

text \<open>
  Modelled from the spec: \<open>WorkerId\<close> and \<open>worker_id_t\<close> are declared in rpc_agent.h,
  which is not among the sources of the agent. The spec gives \<open>{name: string, rank: integer}\<close>;
  the source reads the members \<open>name_\<close> and \<open>id_\<close> and returns the rank of the agent
  as \<open>int16_t\<close>, a signed type. Ranks are integers here, and the casts
  \<open>(worker_id_t)pg_->getRank()\<close> and \<open>(worker_id_t)pg_->getSize()\<close> keep the value
  (a group's size fits the type).
\<close>

record WorkerId =
  name_' :: string
  id_' :: int

text \<open>
  The transport group \<open>pg_\<close>. The agent reads \<open>getRank()\<close> and \<open>getSize()\<close>; the
  size of a group is a count.
\<close>

record ProcessGroup =
  getRank :: int
  getSize :: nat

text \<open>
  Modelled from the spec: \<open>FutureMessage\<close> is declared in future_message.h, which is
  not among the sources of the agent. The spec gives a single-assignment container that is
  marked completed, with the Message it completes with; \<open>markCompleted()\<close> without an
  argument completes it with no Message of the caller's.
\<close>

record FutureMessage =
  completed :: bool
  message_of :: "Message option"

definition markCompleted :: "Message option \<Rightarrow> FutureMessage \<Rightarrow> FutureMessage" where
  "markCompleted m f = f\<lparr>completed := True, message_of := m\<rparr>"

record SendWork =
  to_' :: WorkerId
  message_' :: Message

record RecvWork =
  from_' :: WorkerId
  type_' :: MessageType
  payload_' :: Tensor

datatype Job = SendJob SendWork | RecvJob RecvWork

subsection \<open>The agent\<close>

text \<open>
  The members of \<open>ProcessGroupAgent\<close>. \<open>nameMap_\<close> is the \<open>unordered_map\<close> as the list
  of its entries in iteration order (its keys are distinct). \<open>futures_\<close> maps a request
  id to a \<open>shared_ptr<FutureMessage>\<close>; the pointer is an address in \<open>heap\<close>, the
  store of the \<open>FutureMessage\<close> objects, so that the future handed to the caller of
  \<open>send\<close> and the one in the table are the same object. \<open>allocated\<close> is the next free
  address. \<open>threadPool_\<close> is the queue of the jobs given to \<open>threadPool_.run\<close>.
\<close>

record Agent =
  workerId_' :: WorkerId
  nameMap_' :: "(string \<times> int) list"
  pg_' :: ProcessGroup
  nextId_' :: int64_t
  workerIds_' :: "WorkerId list"
  futures_' :: "int64_t \<rightharpoonup> nat"
  heap :: "nat \<Rightarrow> FutureMessage"
  allocated :: nat
  threadPool_' :: "Job list"

text \<open>\<open>v[i]\<close> on a \<open>std::vector\<close>: no bounds check.\<close>

definition vector_at :: "'a list \<Rightarrow> int \<Rightarrow> error + 'a" where
  "vector_at v i =
     (if 0 \<le> i \<and> i < int (length v) then Inr (v ! nat i)
      else Inl (UndefinedBehaviour ''vector index out of bounds''))"

text \<open>
  The loop \<open>for (auto& entry: nameMap_) tmpWorkerIds[entry.second] = entry.first\<close> of
  the constructor.
\<close>

fun fill_tmpWorkerIds :: "(string \<times> int) list \<Rightarrow> string list \<Rightarrow> error + string list" where
  "fill_tmpWorkerIds [] tmpWorkerIds = Inr tmpWorkerIds"
| "fill_tmpWorkerIds ((name, rank) # entries) tmpWorkerIds =
     (if 0 \<le> rank \<and> rank < int (length tmpWorkerIds)
      then fill_tmpWorkerIds entries (tmpWorkerIds[nat rank := name])
      else Inl (UndefinedBehaviour ''vector index out of bounds''))"

text \<open>
  The constructor. The Python handler and the listener thread it starts at its end are
  outside the model.
\<close>

definition ProcessGroupAgent ::
  "string \<Rightarrow> (string \<times> int) list \<Rightarrow> ProcessGroup \<Rightarrow> nat \<Rightarrow> error + Agent" where
  "ProcessGroupAgent workerName nameMap pg numSendRecvThreads =
     (if \<not> length nameMap > 1
      then Inl (TorchCheck
             [Str ''ProcessGroupAgent requires world_size to be at least 2, but got '',
              Num (int (length nameMap))])
      else
        (case map_of nameMap workerName of
           None \<Rightarrow>
             Inl (TorchCheck [Str ''Failed to resolve worker name '', Str workerName,
                              Str '' to a ProcessGroup rank.''])
         | Some workerRank \<Rightarrow>
             if \<not> getRank pg = workerRank
             then Inl (TorchCheck [Str ''Resolved worker rank '', Num workerRank,
                                   Str '' does not match ProcessGroup rank '',
                                   Num (getRank pg)])
             else
               (case fill_tmpWorkerIds nameMap (replicate (getSize pg) []) of
                  Inl e \<Rightarrow> Inl e
                | Inr tmpWorkerIds \<Rightarrow>
                    Inr \<lparr>workerId_' = \<lparr>name_' = workerName, id_' = getRank pg\<rparr>,
                         nameMap_' = nameMap,
                         pg_' = pg,
                         nextId_' = 0,
                         workerIds_' =
                           map (\<lambda>rank. \<lparr>name_' = tmpWorkerIds ! rank, id_' = int rank\<rparr>)
                             [0..<length tmpWorkerIds],
                         futures_' = Map.empty,
                         heap = (\<lambda>p. \<lparr>completed = False, message_of = None\<rparr>),
                         allocated = 0,
                         threadPool_' = []\<rparr>)))"

text \<open>\<open>getWorkerId(workerName)\<close>.\<close>

definition getWorkerId :: "Agent \<Rightarrow> string \<Rightarrow> error + WorkerId" where
  "getWorkerId a workerName =
     (case map_of (nameMap_' a) workerName of
        None \<Rightarrow> Inl (TorchCheck [Str ''Unknown destination worker '', Str workerName])
      | Some rank \<Rightarrow> vector_at (workerIds_' a) rank)"

text \<open>
  Modelled from the spec: \<open>nextId()\<close> is declared in process_group_agent.h, which is
  not among the sources of the agent. The spec gives a process-local, monotonically
  increasing counter; the constructor starts \<open>nextId_\<close> at 0. A call returns the
  counter and advances it by one (a 64-bit counter: it wraps).
\<close>

definition nextId :: "Agent \<Rightarrow> int64_t \<times> Agent" where
  "nextId a = (nextId_' a, a\<lparr>nextId_' := nextId_' a + 1\<rparr>)"

text \<open>\<open>std::make_shared<FutureMessage>()\<close>: a new, uncompleted future.\<close>

definition make_shared_FutureMessage :: "Agent \<Rightarrow> nat \<times> Agent" where
  "make_shared_FutureMessage a =
     (allocated a,
      a\<lparr>heap := (heap a)(allocated a := \<lparr>completed = False, message_of = None\<rparr>),
        allocated := Suc (allocated a)\<rparr>)"

text \<open>
  \<open>enqueueSend(work)\<close> and \<open>enqueueRecv(work)\<close> hand a job to the thread pool. What
  the send job transmits is outside the model.
\<close>

definition enqueueSend :: "SendWork \<Rightarrow> Agent \<Rightarrow> Agent" where
  "enqueueSend work a = a\<lparr>threadPool_' := threadPool_' a @ [SendJob work]\<rparr>"

definition enqueueRecv :: "RecvWork \<Rightarrow> Agent \<Rightarrow> Agent" where
  "enqueueRecv work a = a\<lparr>threadPool_' := threadPool_' a @ [RecvJob work]\<rparr>"

text \<open>
  \<open>send(to, message)\<close> returns the address of the future and the new state of the
  agent.
\<close>

definition send :: "Agent \<Rightarrow> WorkerId \<Rightarrow> Message \<Rightarrow> error + (nat \<times> Agent)" where
  "send a to message =
     (if \<not> id_' to \<noteq> getRank (pg_' a)
      then Inl (TorchCheck
             [Str ''ProcessGroupAgent does not support making RPC calls to self.''])
      else if \<not> id_' to < int (getSize (pg_' a))
      then Inl (TorchCheck
             [Str ''Destination rank is out of bound, got '', Num (id_' to),
              Str '', but world size is '', Num (getRank (pg_' a))])
      else
        let (requestId, a1) = nextId a;
            (future, a2) = make_shared_FutureMessage a1;
            (message', a3) =
              (if isRequest message
               then (setId requestId message,
                     a2\<lparr>futures_' := (futures_' a2)(requestId \<mapsto> future)\<rparr>)
               else (message,
                     a2\<lparr>heap := (heap a2)(future := markCompleted None (heap a2 future))\<rparr>))
        in (case vector_at (workerIds_' a3) (id_' to) of
              Inl e \<Rightarrow> Inl e
            | Inr dst \<Rightarrow>
                Inr (future, enqueueSend \<lparr>to_' = dst, message_' = message'\<rparr> a3)))"

text \<open>
  The same call, statement by statement: the successive states of the agent in the
  order of the source, after \<open>nextId()\<close> (line 145), after \<open>make_shared\<close> (line 146),
  after the registration of a request or the completion of the future of any other
  message (lines 147 to 155), and after \<open>enqueueSend\<close> (line 166). The last of them is
  the state \<open>send\<close> returns.
\<close>

definition send_states :: "Agent \<Rightarrow> WorkerId \<Rightarrow> Message \<Rightarrow> error + (nat \<times> Agent list)" where
  "send_states a to message =
     (if \<not> id_' to \<noteq> getRank (pg_' a)
      then Inl (TorchCheck
             [Str ''ProcessGroupAgent does not support making RPC calls to self.''])
      else if \<not> id_' to < int (getSize (pg_' a))
      then Inl (TorchCheck
             [Str ''Destination rank is out of bound, got '', Num (id_' to),
              Str '', but world size is '', Num (getRank (pg_' a))])
      else
        let (requestId, a1) = nextId a;
            (future, a2) = make_shared_FutureMessage a1;
            (message', a3) =
              (if isRequest message
               then (setId requestId message,
                     a2\<lparr>futures_' := (futures_' a2)(requestId \<mapsto> future)\<rparr>)
               else (message,
                     a2\<lparr>heap := (heap a2)(future := markCompleted None (heap a2 future))\<rparr>))
        in (case vector_at (workerIds_' a3) (id_' to) of
              Inl e \<Rightarrow> Inl e
            | Inr dst \<Rightarrow>
                Inr (future,
                     [a1, a2, a3, enqueueSend \<lparr>to_' = dst, message_' = message'\<rparr> a3])))"

text \<open>
  The job that \<open>enqueueRecv(work)\<close> gives to the thread pool. \<open>cb\<close> is the callback
  \<open>cb_\<close> that turns a request into its response, \<open>load\<close> is \<open>torch::load\<close> on the
  bytes of the received tensor.
\<close>

definition enqueueRecv_job ::
  "(Message \<Rightarrow> Message) \<Rightarrow> (byte list \<Rightarrow> error + Tensor list) \<Rightarrow> RecvWork \<Rightarrow> Agent
     \<Rightarrow> error + Agent" where
  "enqueueRecv_job cb load work a =
     (case storage_bytes (payload_' work) (numel (payload_' work)) of
        Inl e \<Rightarrow> Inl e
      | Inr ss \<Rightarrow>
          (case deserialize load (type_' work) ss of
             Inl e \<Rightarrow> Inl e
           | Inr message \<Rightarrow>
               if isRequest message
               then (let response = cb message
                     in (case send a (from_' work) response of
                           Inl e \<Rightarrow> Inl e
                         | Inr (future, a') \<Rightarrow> Inr a'))
               else if isResponse message
               then (let i = msg_id message
                     in (case futures_' a i of
                           None \<Rightarrow>
                             Inl (UndefinedBehaviour ''null shared_ptr dereferenced'')
                         | Some future \<Rightarrow>
                             Inr (a\<lparr>heap := (heap a)
                                           (future := markCompleted (Some message)
                                                        (heap a future)),
                                     futures_' := (futures_' a)(i := None)\<rparr>)))
               else Inl (TorchCheck [Str ''unrecognized message type '',
                                     Ty (msg_type message)])))"

subsection \<open>Runs of the agent\<close>

text \<open>
  What happens to an agent after its construction: the application calls \<open>send\<close>, and
  the thread pool runs the job of a received work. \<open>futures_\<close> is touched under
  \<open>futureMutex_\<close> only, so the two kinds of event act on it one at a time.
\<close>

datatype Event = SendCall WorkerId Message | RecvRun RecvWork

definition step ::
  "(Message \<Rightarrow> Message) \<Rightarrow> (byte list \<Rightarrow> error + Tensor list) \<Rightarrow> Event \<Rightarrow> Agent
     \<Rightarrow> error + Agent" where
  "step cb load ev a =
     (case ev of
        SendCall to m \<Rightarrow>
          (case send a to m of Inl e \<Rightarrow> Inl e | Inr (future, a') \<Rightarrow> Inr a')
      | RecvRun work \<Rightarrow> enqueueRecv_job cb load work a)"

fun run ::
  "(Message \<Rightarrow> Message) \<Rightarrow> (byte list \<Rightarrow> error + Tensor list) \<Rightarrow> Event list \<Rightarrow> Agent
     \<Rightarrow> error + Agent" where
  "run cb load [] a = Inr a"
| "run cb load (ev # evs) a =
     (case step cb load ev a of Inl e \<Rightarrow> Inl e | Inr a' \<Rightarrow> run cb load evs a')"

text \<open>The Message a receive job decodes from its work, if it decodes one.\<close>

definition received :: "(byte list \<Rightarrow> error + Tensor list) \<Rightarrow> RecvWork \<Rightarrow> Message option" where
  "received load work =
     (case storage_bytes (payload_' work) (numel (payload_' work)) of
        Inl e \<Rightarrow> None
      | Inr ss \<Rightarrow>
          (case deserialize load (type_' work) ss of
             Inl e \<Rightarrow> None
           | Inr message \<Rightarrow> Some message))"

text \<open>An event that receives a RESPONSE carrying the id \<open>i\<close>.\<close>

definition answers :: "(byte list \<Rightarrow> error + Tensor list) \<Rightarrow> int64_t \<Rightarrow> Event \<Rightarrow> bool" where
  "answers load i ev =
     (case ev of
        SendCall to m \<Rightarrow> False
      | RecvRun work \<Rightarrow>
          (case received load work of
             None \<Rightarrow> False
           | Some message \<Rightarrow> isResponse message \<and> msg_id message = i))"

text \<open>Every pointer in \<open>futures_\<close> is the address of an allocated future.\<close>

definition futures_allocated :: "Agent \<Rightarrow> bool" where
  "futures_allocated a = (\<forall>i p. futures_' a i = Some p \<longrightarrow> p < allocated a)"

subsection \<open>A future awaiting its response\<close>

text \<open>
  The future at address \<open>fut\<close> is registered under the id \<open>i\<close> and under no other
  id, it is allocated and not completed, and at most \<open>n\<close> ids have been taken from
  the counter since \<open>i\<close>.
\<close>

definition pending_at :: "int64_t \<Rightarrow> nat \<Rightarrow> nat \<Rightarrow> Agent \<Rightarrow> bool" where
  "pending_at i fut n a =
     (futures_' a i = Some fut \<and> (\<forall>k. futures_' a k = Some fut \<longrightarrow> k = i) \<and>
      fut < allocated a \<and> \<not> completed (heap a fut) \<and>
      (\<exists>k\<le>n. nextId_' a = i + 1 + of_nat k))"

subsection \<open>An agent of a group of two\<close>

text \<open>
  The agent of worker \<open>a\<close>, rank 0, in the group \<open>{a \<mapsto> 0, b \<mapsto> 1}\<close>, as the
  constructor leaves it; a request and a response; a loader that takes the bytes of the
  stream for the payload and gives the id 0; a work received from \<open>b\<close>.
\<close>

definition two_workers :: Agent where
  "two_workers =
     \<lparr>workerId_' = \<lparr>name_' = ''a'', id_' = 0\<rparr>,
      nameMap_' = [(''a'', 0), (''b'', 1)],
      pg_' = \<lparr>getRank = 0, getSize = 2\<rparr>,
      nextId_' = 0,
      workerIds_' = [\<lparr>name_' = ''a'', id_' = 0\<rparr>, \<lparr>name_' = ''b'', id_' = 1\<rparr>],
      futures_' = Map.empty,
      heap = (\<lambda>p. \<lparr>completed = False, message_of = None\<rparr>),
      allocated = 0,
      threadPool_' = []\<rparr>"

definition worker_b :: WorkerId where
  "worker_b = \<lparr>name_' = ''b'', id_' = 1\<rparr>"

definition ping :: Message where
  "ping = \<lparr>payload = [112, 105, 110, 103], tensors = [], msg_type = REQUEST, msg_id = 0\<rparr>"

definition pong :: Message where
  "pong = \<lparr>payload = [112, 111, 110, 103], tensors = [], msg_type = RESPONSE, msg_id = 0\<rparr>"

definition load_id0 :: "byte list \<Rightarrow> error + Tensor list" where
  "load_id0 bs = Inr [from_blob bs (length bs), tensor_int64 0]"

definition work_of :: "MessageType \<Rightarrow> byte list \<Rightarrow> RecvWork" where
  "work_of ty bs = \<lparr>from_' = worker_b, type_' = ty, payload_' = from_blob bs (length bs)\<rparr>"

section \<open>Properties of the wire codec\<close>

lemma length_int64_bytes: "length (int64_bytes w) = 8"
  by (simp add: int64_bytes_def)

lemma int64_at0_bytes: "int64_at0 (int64_bytes w) = w"
proof (rule bit_word_eqI)
  fix n :: nat
  assume n: "n < LENGTH(64)"
  have len: "length (int64_bytes w) = 8"
    by (rule length_int64_bytes)
  have d: "n div 8 < 8"
    using n by simp
  have nth: "int64_bytes w ! (n div 8) = ucast (drop_bit (8 * (n div 8)) w)"
    unfolding int64_bytes_def using d by (simp del: upt_Suc)
  have "bit (int64_at0 (int64_bytes w)) n
      = bit (horner_sum uint (2 ^ LENGTH(8)) (int64_bytes w)) n"
    using n by (simp add: int64_at0_def len bit_word_of_int_iff)
  also have "\<dots> = bit (int64_bytes w ! (n div 8)) (n mod 8)"
    unfolding bit_horner_sum_uint_exp_iff using d len by simp
  also have "\<dots> = bit w (8 * (n div 8) + n mod 8)"
    unfolding nth by (simp add: bit_ucast_iff bit_drop_bit_eq)
  also have "\<dots> = bit w n"
    by simp
  finally show "bit (int64_at0 (int64_bytes w)) n = bit w n" .
qed

lemma data_int64_0_tensor_int64: "data_int64_0 (tensor_int64 v) = Inr v"
  by (simp add: data_int64_0_def tensor_int64_def length_int64_bytes int64_at0_bytes)

lemma numel_from_blob: "numel (from_blob bs n) = n"
  by (simp add: numel_def from_blob_def)

lemma storage_bytes_from_blob:
  "storage_bytes (from_blob bs (length bs)) (length bs) = Inr bs"
  by (simp add: storage_bytes_def from_blob_def)

text \<open>
  Claim C8. A body that \<open>torch::load\<close> decodes to fewer than two tensors is refused:
  \<open>deserialize\<close> fails the check "Failed to deserialize a message." and returns no
  Message, whatever the message type.
\<close>

theorem deserialize_too_few_blocks:
  assumes "load is = Inr ts" and "length ts < 2"
  shows "deserialize load type is = Inl (TorchCheck [Str ''Failed to deserialize a message.''])"
  using assms by (simp add: deserialize_def)

theorem deserialize_too_few_blocks_witness:
  "deserialize (\<lambda>s. Inr s) RESPONSE [tensor_int64 5]
     = Inl (TorchCheck [Str ''Failed to deserialize a message.''])"
  using deserialize_too_few_blocks
    [of "\<lambda>s. Inr s" "[tensor_int64 5]" "[tensor_int64 5]" RESPONSE]
  by simp

text \<open>
  Claim C4. Round trip: for a Message \<open>m\<close> with a non-empty payload, any auxiliary
  tensors and type REQUEST or RESPONSE, deserializing the serialized body with the type
  of \<open>m\<close> gives \<open>m\<close> back (payload, auxiliary tensors, type and id), provided
  \<open>torch::load\<close> returns the tensors \<open>torch::save\<close> was given.
\<close>

theorem deserialize_serialize:
  assumes "payload m \<noteq> []"
    and "msg_type m = REQUEST \<or> msg_type m = RESPONSE"
    and "\<And>ts. load (save ts) = Inr ts"
  shows "deserialize load (msg_type m) (serialize save m) = Inr m"
proof -
  let ?p = "from_blob (payload m) (length (payload m))"
  let ?i = "tensor_int64 (msg_id m)"
  have ld: "load (serialize save m) = Inr (tensors m @ [?p] @ [?i])"
    using assms(3) by (simp add: serialize_def)
  have pos: "numel ?p > 0"
    using assms(1) by (simp add: numel_from_blob)
  show ?thesis
    using pos
    by (simp add: deserialize_def ld butlast_append data_int64_0_tensor_int64
        numel_from_blob storage_bytes_from_blob)
qed

theorem deserialize_serialize_witness:
  "deserialize (\<lambda>s. Inr s) REQUEST
     (serialize (\<lambda>ts. ts)
        \<lparr>payload = [112, 105, 110, 103], tensors = [from_blob [1, 2] 2],
         msg_type = REQUEST, msg_id = 7\<rparr>)
   = Inr \<lparr>payload = [112, 105, 110, 103], tensors = [from_blob [1, 2] 2],
          msg_type = REQUEST, msg_id = 7\<rparr>"
  using deserialize_serialize
    [of "\<lparr>payload = [112, 105, 110, 103], tensors = [from_blob [1, 2] 2],
          msg_type = REQUEST, msg_id = 7\<rparr>" "\<lambda>s. Inr s" "\<lambda>ts. ts"]
  by simp

section \<open>The constructor and the registry\<close>

lemma fill_tmpWorkerIds_length:
  "fill_tmpWorkerIds nm tmp = Inr tmp' \<Longrightarrow> length tmp' = length tmp"
  by (induction nm tmp rule: fill_tmpWorkerIds.induct) (auto split: if_splits)

lemma fill_tmpWorkerIds_in_range:
  "fill_tmpWorkerIds nm tmp = Inr tmp' \<Longrightarrow> (name, rank) \<in> set nm
     \<Longrightarrow> 0 \<le> rank \<and> rank < int (length tmp)"
  by (induction nm tmp rule: fill_tmpWorkerIds.induct) (auto split: if_splits)

lemma fill_tmpWorkerIds_total:
  "\<forall>(name, rank)\<in>set nm. 0 \<le> rank \<and> rank < int (length tmp)
     \<Longrightarrow> \<exists>tmp'. fill_tmpWorkerIds nm tmp = Inr tmp'"
  by (induction nm tmp rule: fill_tmpWorkerIds.induct) auto

lemma fill_tmpWorkerIds_out_of_range:
  "(name, rank) \<in> set nm \<Longrightarrow> \<not> (0 \<le> rank \<and> rank < int (length tmp))
     \<Longrightarrow> fill_tmpWorkerIds nm tmp = Inl (UndefinedBehaviour ''vector index out of bounds'')"
  by (induction nm tmp rule: fill_tmpWorkerIds.induct) auto

text \<open>
  The three checks of the constructor, in their order, and what it does once they have
  passed: it succeeds when every rank of the map is an index of \<open>tmpWorkerIds\<close>, and
  writes outside the vector otherwise.
\<close>

lemma ProcessGroupAgent_too_few:
  "length nameMap \<le> 1 \<Longrightarrow> ProcessGroupAgent workerName nameMap pg n =
     Inl (TorchCheck [Str ''ProcessGroupAgent requires world_size to be at least 2, but got '',
                      Num (int (length nameMap))])"
  by (simp add: ProcessGroupAgent_def)

lemma ProcessGroupAgent_unresolved:
  "1 < length nameMap \<Longrightarrow> map_of nameMap workerName = None \<Longrightarrow>
   ProcessGroupAgent workerName nameMap pg n =
     Inl (TorchCheck [Str ''Failed to resolve worker name '', Str workerName,
                      Str '' to a ProcessGroup rank.''])"
  by (simp add: ProcessGroupAgent_def)

lemma ProcessGroupAgent_rank_mismatch:
  "1 < length nameMap \<Longrightarrow> map_of nameMap workerName = Some r \<Longrightarrow> getRank pg \<noteq> r \<Longrightarrow>
   ProcessGroupAgent workerName nameMap pg n =
     Inl (TorchCheck [Str ''Resolved worker rank '', Num r,
                      Str '' does not match ProcessGroup rank '', Num (getRank pg)])"
  by (simp add: ProcessGroupAgent_def)

lemma ProcessGroupAgent_succeeds:
  assumes "1 < length nameMap" and "map_of nameMap workerName = Some (getRank pg)"
    and "\<forall>(name, rank)\<in>set nameMap. 0 \<le> rank \<and> rank < int (getSize pg)"
  shows "\<exists>a. ProcessGroupAgent workerName nameMap pg n = Inr a"
proof -
  from assms(3) obtain tmp where "fill_tmpWorkerIds nameMap (replicate (getSize pg) []) = Inr tmp"
    using fill_tmpWorkerIds_total [of nameMap "replicate (getSize pg) []"] by auto
  with assms(1,2) show ?thesis
    by (simp add: ProcessGroupAgent_def)
qed

lemma ProcessGroupAgent_rank_unchecked:
  assumes "1 < length nameMap" and "map_of nameMap workerName = Some (getRank pg)"
    and "(name, rank) \<in> set nameMap" and "\<not> (0 \<le> rank \<and> rank < int (getSize pg))"
  shows "ProcessGroupAgent workerName nameMap pg n
     = Inl (UndefinedBehaviour ''vector index out of bounds'')"
proof -
  have "fill_tmpWorkerIds nameMap (replicate (getSize pg) [])
      = Inl (UndefinedBehaviour ''vector index out of bounds'')"
    using assms(3,4) by (intro fill_tmpWorkerIds_out_of_range [of name rank]) simp_all
  with assms(1,2) show ?thesis
    by (simp add: ProcessGroupAgent_def)
qed

text \<open>
  Claim C5. The claim asks that a map holding a rank outside \<open>[0, worldSize)\<close> makes
  the construction fail with a fatal configuration error. The constructor does not look
  at the ranks of the map before it uses them as indices: for the map
  \<open>{a \<mapsto> 0, b \<mapsto> 7}\<close>, the local name \<open>a\<close> and a transport of rank 0 and size 2,
  the three checks pass and the loop writes \<open>tmpWorkerIds[7]\<close> in a vector of two
  elements. No \<open>TORCH_CHECK\<close> fails: the behaviour is undefined.
\<close>

theorem ProcessGroupAgent_rank_out_of_range:
  "ProcessGroupAgent ''a'' [(''a'', 0), (''b'', 7)] \<lparr>getRank = 0, getSize = 2\<rparr> 4
     = Inl (UndefinedBehaviour ''vector index out of bounds'')"
  by (simp add: ProcessGroupAgent_def)

lemma ProcessGroupAgent_Inr:
  assumes "ProcessGroupAgent workerName nameMap pg n = Inr a"
  obtains tmp where "fill_tmpWorkerIds nameMap (replicate (getSize pg) []) = Inr tmp"
    and "nameMap_' a = nameMap" and "pg_' a = pg"
    and "workerIds_' a = map (\<lambda>rank. \<lparr>name_' = tmp ! rank, id_' = int rank\<rparr>) [0..<length tmp]"
  using assms
  by (auto simp: ProcessGroupAgent_def split: if_splits option.splits sum.splits)

lemma two_workers_constructed:
  "ProcessGroupAgent ''a'' [(''a'', 0), (''b'', 1)] \<lparr>getRank = 0, getSize = 2\<rparr> 4
     = Inr two_workers"
  by (simp add: ProcessGroupAgent_def two_workers_def upt_rec)

text \<open>
  Claim C10. On an agent the constructor has built, the registry is the map the
  constructor was given. \<open>getWorkerId(name)\<close> fails with the error "Unknown destination
  worker \<open>name\<close>" for every name that is not a key of the registry; for every registered
  name it returns the element of \<open>workerIds_\<close> at the rank the registry maps the name
  to, that rank is an index of \<open>workerIds_\<close>, and the rank of the element is that rank.
\<close>

theorem getWorkerId_registry:
  assumes "ProcessGroupAgent workerName nameMap pg n = Inr a"
  shows "nameMap_' a = nameMap \<and>
         (map_of nameMap name = None \<longrightarrow>
            getWorkerId a name = Inl (TorchCheck [Str ''Unknown destination worker '', Str name]))
       \<and> (\<forall>r. map_of nameMap name = Some r \<longrightarrow>
            0 \<le> r \<and> nat r < length (workerIds_' a) \<and>
            getWorkerId a name = Inr (workerIds_' a ! nat r) \<and>
            id_' (workerIds_' a ! nat r) = r)"
proof -
  from assms obtain tmp where
    fill: "fill_tmpWorkerIds nameMap (replicate (getSize pg) []) = Inr tmp"
    and nm: "nameMap_' a = nameMap"
    and ws: "workerIds_' a = map (\<lambda>rank. \<lparr>name_' = tmp ! rank, id_' = int rank\<rparr>) [0..<length tmp]"
    by (rule ProcessGroupAgent_Inr)
  have len: "length tmp = getSize pg"
    using fill_tmpWorkerIds_length [OF fill] by simp
  have lw: "length (workerIds_' a) = length tmp"
    by (simp add: ws)
  have known: "0 \<le> r \<and> nat r < length (workerIds_' a) \<and>
      getWorkerId a name = Inr (workerIds_' a ! nat r) \<and> id_' (workerIds_' a ! nat r) = r"
    if "map_of nameMap name = Some r" for r
  proof -
    from that have "(name, r) \<in> set nameMap"
      by (rule map_of_SomeD)
    with fill have "0 \<le> r \<and> r < int (getSize pg)"
      using fill_tmpWorkerIds_in_range [of nameMap "replicate (getSize pg) []" tmp name r] by simp
    then have rng: "0 \<le> r \<and> r < int (length tmp)"
      by (simp add: len)
    then have lt: "nat r < length tmp" and inv: "int (nat r) = r"
      by (simp_all add: nat_less_iff)
    have "workerIds_' a ! nat r = \<lparr>name_' = tmp ! nat r, id_' = int (nat r)\<rparr>"
      unfolding ws using lt by (subst nth_map) simp_all
    then have "id_' (workerIds_' a ! nat r) = r"
      using rng by simp
    moreover have "getWorkerId a name = Inr (workerIds_' a ! nat r)"
      using that rng by (simp add: getWorkerId_def nm vector_at_def ws)
    moreover have "nat r < length (workerIds_' a)"
      unfolding lw by (rule lt)
    ultimately show ?thesis
      using rng by blast
  qed
  have unknown: "getWorkerId a name = Inl (TorchCheck [Str ''Unknown destination worker '', Str name])"
    if "map_of nameMap name = None"
    using that by (simp add: getWorkerId_def nm)
  from nm known unknown show ?thesis
    by blast
qed

theorem getWorkerId_registry_witness:
  "getWorkerId two_workers ''c'' = Inl (TorchCheck [Str ''Unknown destination worker '', Str ''c''])
   \<and> getWorkerId two_workers ''b'' = Inr worker_b \<and> id_' worker_b = 1"
proof -
  have w: "workerIds_' two_workers ! nat 1 = worker_b"
    by (simp add: two_workers_def worker_b_def)
  from getWorkerId_registry [OF two_workers_constructed, of "''c''"]
    getWorkerId_registry [OF two_workers_constructed, of "''b''"] w
  show ?thesis
    by simp
qed

section \<open>send\<close>

text \<open>What a call of \<open>send\<close> that returns has done to the agent.\<close>

lemma send_Inr:
  assumes "send a to m = Inr (fut, a')"
  shows "id_' to \<noteq> getRank (pg_' a)"
    and "id_' to < int (getSize (pg_' a))"
    and "0 \<le> id_' to" and "id_' to < int (length (workerIds_' a))"
    and "fut = allocated a"
    and "nextId_' a' = nextId_' a + 1"
    and "allocated a' = Suc (allocated a)"
    and "futures_' a' = (if isRequest m then (futures_' a)(nextId_' a \<mapsto> allocated a) else futures_' a)"
    and "heap a' = (heap a)(allocated a := \<lparr>completed = \<not> isRequest m, message_of = None\<rparr>)"
    and "threadPool_' a' = threadPool_' a @
           [SendJob \<lparr>to_' = workerIds_' a ! nat (id_' to),
                     message_' = (if isRequest m then setId (nextId_' a) m else m)\<rparr>]"
    and "workerIds_' a' = workerIds_' a" and "pg_' a' = pg_' a"
    and "nameMap_' a' = nameMap_' a" and "workerId_' a' = workerId_' a"
  using assms
  by (auto simp: send_def nextId_def make_shared_FutureMessage_def vector_at_def
      enqueueSend_def markCompleted_def split: if_splits)

lemma send_valid:
  assumes "id_' to \<noteq> getRank (pg_' a)" and "id_' to < int (getSize (pg_' a))"
    and "0 \<le> id_' to" and "id_' to < int (length (workerIds_' a))"
  shows "\<exists>a'. send a to m = Inr (allocated a, a')"
  using assms
  by (auto simp: send_def nextId_def make_shared_FutureMessage_def vector_at_def
      split: if_splits)

text \<open>
  The destination: the agent's own rank and a rank of at least the size of the group are
  refused by a check; a negative rank passes both checks and indexes \<open>workerIds_\<close>.
\<close>

lemma send_to_self:
  "id_' to = getRank (pg_' a) \<Longrightarrow> send a to m =
     Inl (TorchCheck [Str ''ProcessGroupAgent does not support making RPC calls to self.''])"
  by (simp add: send_def)

lemma send_rank_too_large:
  "id_' to \<noteq> getRank (pg_' a) \<Longrightarrow> int (getSize (pg_' a)) \<le> id_' to \<Longrightarrow> send a to m =
     Inl (TorchCheck [Str ''Destination rank is out of bound, got '', Num (id_' to),
                      Str '', but world size is '', Num (getRank (pg_' a))])"
  by (simp add: send_def)

lemma send_rank_negative:
  "id_' to \<noteq> getRank (pg_' a) \<Longrightarrow> id_' to < 0 \<Longrightarrow> send a to m =
     Inl (UndefinedBehaviour ''vector index out of bounds'')"
  by (simp add: send_def nextId_def make_shared_FutureMessage_def vector_at_def
      split: prod.splits)

text \<open>
  Claim C3. The claim asks that \<open>send\<close> reject every destination whose rank is
  not in \<open>[0, worldSize)\<close>. The source checks \<open>to.id_ < getSize()\<close> only, on a signed
  rank: for the destination of rank \<open>-1\<close>, on the agent of rank 0 in a group of two,
  both checks pass, no \<open>TORCH_CHECK\<close> fails, and \<open>workerIds_[-1]\<close> is read outside the
  vector.
\<close>

theorem send_negative_rank_not_rejected:
  "send two_workers \<lparr>name_' = ''b'', id_' = - 1\<rparr> ping
     = Inl (UndefinedBehaviour ''vector index out of bounds'')"
  by (simp add: send_def two_workers_def nextId_def make_shared_FutureMessage_def
      vector_at_def ping_def isRequest_def setId_def)

text \<open>
  The state \<open>send\<close> returns is the last of the states of the call, and these states
  are, for a call that returns:
\<close>

lemma send_last_state:
  "send a to m =
     (case send_states a to m of
        Inl e \<Rightarrow> Inl e
      | Inr (future, states) \<Rightarrow> Inr (future, last states))"
  by (simp add: send_def send_states_def nextId_def make_shared_FutureMessage_def
      split: sum.splits)

lemma send_states_Inr:
  assumes "send a to m = Inr (fut, a')"
  shows "send_states a to m =
     Inr (fut,
       [a\<lparr>nextId_' := nextId_' a + 1\<rparr>,
        a\<lparr>nextId_' := nextId_' a + 1,
          heap := (heap a)(allocated a := \<lparr>completed = False, message_of = None\<rparr>),
          allocated := Suc (allocated a)\<rparr>,
        (if isRequest m
         then a\<lparr>nextId_' := nextId_' a + 1,
                heap := (heap a)(allocated a := \<lparr>completed = False, message_of = None\<rparr>),
                allocated := Suc (allocated a),
                futures_' := (futures_' a)(nextId_' a \<mapsto> allocated a)\<rparr>
         else a\<lparr>nextId_' := nextId_' a + 1,
                heap := (heap a)(allocated a := \<lparr>completed = True, message_of = None\<rparr>),
                allocated := Suc (allocated a)\<rparr>),
        a'])"
  using assms
  by (auto simp: send_def send_states_def nextId_def make_shared_FutureMessage_def
      vector_at_def markCompleted_def split: if_splits)

text \<open>
  Claim C2. (as amended) Every call of \<open>send\<close> that passes the checks on its
  destination takes the next id from the counter first, whatever the type of the
  message: the counter advances by one. Only for a REQUEST is the id set on the message
  and the future registered under it in \<open>futures_\<close>; for a RESPONSE or a SHUTDOWN the
  message is queued as it was given, \<open>futures_\<close> is left as it was and the future is
  completed. The registration is made in a state in which the thread pool has not yet
  been given the send job: the job is handed over in the step after it, which changes
  nothing but the queue of the pool.
\<close>

theorem send_takes_id:
  assumes "send a to m = Inr (fut, a')"
  shows "\<exists>a1 a2 a3.
     send_states a to m = Inr (fut, [a1, a2, a3, a']) \<and>
     nextId_' a1 = nextId_' a + 1 \<and> futures_' a1 = futures_' a \<and>
     threadPool_' a1 = threadPool_' a \<and>
     nextId_' a3 = nextId_' a + 1 \<and> threadPool_' a3 = threadPool_' a \<and>
     futures_' a3 =
       (if isRequest m then (futures_' a)(nextId_' a \<mapsto> fut) else futures_' a) \<and>
     completed (heap a3 fut) = (\<not> isRequest m) \<and>
     a' = a3\<lparr>threadPool_' := threadPool_' a @
             [SendJob \<lparr>to_' = workerIds_' a ! nat (id_' to),
                       message_' = (if isRequest m then setId (nextId_' a) m else m)\<rparr>]\<rparr>"
proof -
  note S = send_states_Inr [OF assms]
  have f: "fut = allocated a"
    by (rule send_Inr(5) [OF assms])
  show ?thesis
  proof (cases "isRequest m")
    case True
    have "a' = a\<lparr>nextId_' := nextId_' a + 1,
                heap := (heap a)(allocated a := \<lparr>completed = False, message_of = None\<rparr>),
                allocated := Suc (allocated a),
                futures_' := (futures_' a)(nextId_' a \<mapsto> allocated a),
                threadPool_' := threadPool_' a @
             [SendJob \<lparr>to_' = workerIds_' a ! nat (id_' to),
                       message_' = setId (nextId_' a) m\<rparr>]\<rparr>"
      using assms True
      by (auto simp: send_def nextId_def make_shared_FutureMessage_def vector_at_def
          enqueueSend_def split: if_splits)
    with S True f show ?thesis
      by simp
  next
    case False
    have "a' = a\<lparr>nextId_' := nextId_' a + 1,
                heap := (heap a)(allocated a := \<lparr>completed = True, message_of = None\<rparr>),
                allocated := Suc (allocated a),
                threadPool_' := threadPool_' a @
             [SendJob \<lparr>to_' = workerIds_' a ! nat (id_' to), message_' = m\<rparr>]\<rparr>"
      using assms False
      by (auto simp: send_def nextId_def make_shared_FutureMessage_def vector_at_def
          enqueueSend_def markCompleted_def split: if_splits)
    with S False f show ?thesis
      by simp
  qed
qed

theorem send_takes_id_witness:
  "(\<exists>fut a1 a2 a3 a'.
      send two_workers worker_b ping = Inr (fut, a') \<and>
      send_states two_workers worker_b ping = Inr (fut, [a1, a2, a3, a']) \<and>
      nextId_' a1 = 1 \<and> threadPool_' a3 = [] \<and> futures_' a3 = [0 \<mapsto> fut] \<and>
      \<not> completed (heap a3 fut) \<and>
      threadPool_' a' = [SendJob \<lparr>to_' = worker_b, message_' = setId 0 ping\<rparr>]) \<and>
   (\<exists>fut a1 a2 a3 a'.
      send two_workers worker_b pong = Inr (fut, a') \<and>
      send_states two_workers worker_b pong = Inr (fut, [a1, a2, a3, a']) \<and>
      nextId_' a1 = 1 \<and> threadPool_' a3 = [] \<and> futures_' a3 = Map.empty \<and>
      completed (heap a3 fut) \<and>
      threadPool_' a' = [SendJob \<lparr>to_' = worker_b, message_' = pong\<rparr>])"
proof -
  obtain b where s: "send two_workers worker_b ping = Inr (0, b)"
    using send_valid [of worker_b two_workers ping]
    by (auto simp: two_workers_def worker_b_def)
  obtain c where t: "send two_workers worker_b pong = Inr (0, c)"
    using send_valid [of worker_b two_workers pong]
    by (auto simp: two_workers_def worker_b_def)
  have q: "isRequest ping" and r: "\<not> isRequest pong"
    by (simp_all add: isRequest_def ping_def pong_def)
  have w: "workerIds_' two_workers ! nat (id_' worker_b) = worker_b"
    and n: "nextId_' two_workers = 0" and p: "threadPool_' two_workers = []"
    and f: "futures_' two_workers = Map.empty"
    by (simp_all add: two_workers_def worker_b_def)
  from send_takes_id [OF s] obtain a1 a2 a3 where
    "send_states two_workers worker_b ping = Inr (0, [a1, a2, a3, b])"
    "nextId_' a1 = 1" "threadPool_' a3 = []" "futures_' a3 = [0 \<mapsto> 0]"
    "\<not> completed (heap a3 0)"
    "threadPool_' b = [SendJob \<lparr>to_' = worker_b, message_' = setId 0 ping\<rparr>]"
    by (auto simp: q w n p f)
  with s have A: "\<exists>fut a1 a2 a3 a'.
      send two_workers worker_b ping = Inr (fut, a') \<and>
      send_states two_workers worker_b ping = Inr (fut, [a1, a2, a3, a']) \<and>
      nextId_' a1 = 1 \<and> threadPool_' a3 = [] \<and> futures_' a3 = [0 \<mapsto> fut] \<and>
      \<not> completed (heap a3 fut) \<and>
      threadPool_' a' = [SendJob \<lparr>to_' = worker_b, message_' = setId 0 ping\<rparr>]"
    by blast
  from send_takes_id [OF t] obtain c1 c2 c3 where
    "send_states two_workers worker_b pong = Inr (0, [c1, c2, c3, c])"
    "nextId_' c1 = 1" "threadPool_' c3 = []" "futures_' c3 = Map.empty"
    "completed (heap c3 0)"
    "threadPool_' c = [SendJob \<lparr>to_' = worker_b, message_' = pong\<rparr>]"
    by (auto simp: r w n p f)
  with t have B: "\<exists>fut a1 a2 a3 a'.
      send two_workers worker_b pong = Inr (fut, a') \<and>
      send_states two_workers worker_b pong = Inr (fut, [a1, a2, a3, a']) \<and>
      nextId_' a1 = 1 \<and> threadPool_' a3 = [] \<and> futures_' a3 = Map.empty \<and>
      completed (heap a3 fut) \<and>
      threadPool_' a' = [SendJob \<lparr>to_' = worker_b, message_' = pong\<rparr>]"
    by blast
  from A B show ?thesis
    by (rule conjI)
qed

text \<open>
  Claim C2 as stated fails: sending a RESPONSE from the agent of the group of two moves
  the counter from 0 to 1, although the message is not a REQUEST.
\<close>

theorem send_response_takes_id:
  "map_sum id (nextId_' \<circ> snd) (send two_workers worker_b pong) = Inr 1
   \<and> nextId_' two_workers = 0 \<and> msg_type pong = RESPONSE"
  by (simp add: send_def two_workers_def worker_b_def pong_def nextId_def
      make_shared_FutureMessage_def isRequest_def vector_at_def enqueueSend_def)

text \<open>
  Claim C7. For a message of type RESPONSE or SHUTDOWN, the future that \<open>send\<close>
  returns is marked completed in the state \<open>send\<close> returns; and \<open>send\<close> does
  return for a destination that is not the agent itself and is an index of
  \<open>workerIds_\<close> below the size of the group.
\<close>

theorem send_nonrequest_future_completed:
  assumes "msg_type m = RESPONSE \<or> msg_type m = SHUTDOWN"
  shows "(\<forall>fut a'. send a to m = Inr (fut, a') \<longrightarrow> completed (heap a' fut)) \<and>
         (id_' to \<noteq> getRank (pg_' a) \<and> 0 \<le> id_' to \<and> id_' to < int (getSize (pg_' a)) \<and>
          id_' to < int (length (workerIds_' a))
            \<longrightarrow> (\<exists>fut a'. send a to m = Inr (fut, a')))"
proof (intro conjI allI impI)
  have nr: "\<not> isRequest m"
    using assms by (auto simp: isRequest_def)
  show "completed (heap a' fut)" if "send a to m = Inr (fut, a')" for fut a'
    using nr by (simp add: send_Inr(9) [OF that] send_Inr(5) [OF that])
  show "\<exists>fut a'. send a to m = Inr (fut, a')"
    if "id_' to \<noteq> getRank (pg_' a) \<and> 0 \<le> id_' to \<and> id_' to < int (getSize (pg_' a)) \<and>
          id_' to < int (length (workerIds_' a))"
    using send_valid [of to a m] that by blast
qed

theorem send_nonrequest_future_completed_witness:
  "\<exists>fut a'. send two_workers worker_b pong = Inr (fut, a') \<and> completed (heap a' fut)"
  using send_nonrequest_future_completed [of pong two_workers worker_b]
  by (simp add: pong_def two_workers_def worker_b_def) blast

section \<open>The receive job\<close>

lemma enqueueRecv_job_received:
  assumes "received load work = Some msg"
  shows "enqueueRecv_job cb load work a =
     (if isRequest msg
      then (case send a (from_' work) (cb msg) of
              Inl e \<Rightarrow> Inl e
            | Inr (future, a') \<Rightarrow> Inr a')
      else if isResponse msg
      then (case futures_' a (msg_id msg) of
              None \<Rightarrow> Inl (UndefinedBehaviour ''null shared_ptr dereferenced'')
            | Some future \<Rightarrow>
                Inr (a\<lparr>heap := (heap a)(future := markCompleted (Some msg) (heap a future)),
                        futures_' := (futures_' a)(msg_id msg := None)\<rparr>))
      else Inl (TorchCheck [Str ''unrecognized message type '', Ty (msg_type msg)]))"
proof -
  from assms obtain ss where
    ss: "storage_bytes (payload_' work) (numel (payload_' work)) = Inr ss"
    and d: "deserialize load (type_' work) ss = Inr msg"
    by (auto simp: received_def split: sum.splits)
  show ?thesis
    by (simp add: enqueueRecv_job_def ss d Let_def)
qed

lemma enqueueRecv_job_Inr:
  assumes "enqueueRecv_job cb load work a = Inr a'"
  shows "\<exists>msg. received load work = Some msg"
proof (cases "storage_bytes (payload_' work) (numel (payload_' work))")
  case (Inl e)
  with assms show ?thesis by (simp add: enqueueRecv_job_def)
next
  case ss: (Inr ss)
  show ?thesis
  proof (cases "deserialize load (type_' work) ss")
    case (Inl e)
    with assms ss show ?thesis by (simp add: enqueueRecv_job_def)
  next
    case (Inr msg)
    with ss show ?thesis by (simp add: received_def)
  qed
qed

lemma markCompleted_eq: "markCompleted m f = \<lparr>completed = True, message_of = m\<rparr>"
  by (cases f) (simp add: markCompleted_def)

text \<open>
  A RESPONSE whose id is in \<open>futures_\<close> completes the future registered under it
  with the message and erases the entry. For an id that is not in \<open>futures_\<close>,
  \<open>futures_[id]\<close> inserts a null pointer and the job dereferences it.
\<close>

lemma enqueueRecv_job_known_id:
  assumes "received load work = Some r" and "isResponse r" and "futures_' a (msg_id r) = Some p"
  shows "enqueueRecv_job cb load work a =
     Inr (a\<lparr>heap := (heap a)(p := \<lparr>completed = True, message_of = Some r\<rparr>),
             futures_' := (futures_' a)(msg_id r := None)\<rparr>)"
  unfolding enqueueRecv_job_received [OF assms(1)]
  using assms(2,3) by (simp add: isRequest_def isResponse_def markCompleted_eq)

lemma enqueueRecv_job_unknown_id:
  assumes "received load work = Some r" and "isResponse r" and "futures_' a (msg_id r) = None"
  shows "enqueueRecv_job cb load work a = Inl (UndefinedBehaviour ''null shared_ptr dereferenced'')"
  unfolding enqueueRecv_job_received [OF assms(1)]
  using assms(2,3) by (simp add: isRequest_def isResponse_def)

lemma received_work_of:
  "bs \<noteq> [] \<Longrightarrow> received load_id0 (work_of ty bs)
     = Some \<lparr>payload = bs, tensors = [], msg_type = ty, msg_id = 0\<rparr>"
  by (simp add: received_def work_of_def load_id0_def numel_from_blob storage_bytes_from_blob
      deserialize_def data_int64_0_tensor_int64)

text \<open>
  Claim C1. The claim asks for a diagnosed abort when a RESPONSE carries an id
  that is not in the table. The job makes no lookup that could fail: on the agent of the
  group of two, which has sent no request, a received RESPONSE of id 0 reaches
  \<open>futures_[id]->markCompleted\<close> with no entry for the id, and a null \<open>shared_ptr\<close> is
  dereferenced. No \<open>TORCH_CHECK\<close> or \<open>AT_ERROR\<close> is on this path.
\<close>

theorem enqueueRecv_job_response_without_request:
  "enqueueRecv_job (\<lambda>m. m) load_id0 (work_of RESPONSE [112, 111, 110, 103]) two_workers
     = Inl (UndefinedBehaviour ''null shared_ptr dereferenced'')"
  by (rule enqueueRecv_job_unknown_id [OF received_work_of])
    (simp_all add: isResponse_def two_workers_def)

section \<open>A request and its response\<close>

text \<open>Every pointer of \<open>futures_\<close> stays allocated along a run.\<close>

lemma futures_allocated_constructed:
  "ProcessGroupAgent workerName nameMap pg n = Inr a \<Longrightarrow> futures_allocated a"
  by (auto simp: ProcessGroupAgent_def futures_allocated_def
      split: if_splits option.splits sum.splits)

lemma futures_allocated_send:
  assumes "futures_allocated a" and S: "send a to m = Inr (f, a')"
  shows "futures_allocated a'"
  using assms(1) unfolding futures_allocated_def send_Inr(7) [OF S] send_Inr(8) [OF S]
  by (auto simp: less_Suc_eq split: if_splits)

lemma futures_allocated_step:
  assumes W: "futures_allocated a" and S: "step cb load ev a = Inr a'"
  shows "futures_allocated a'"
proof (cases ev)
  case (SendCall to m)
  with S obtain f where "send a to m = Inr (f, a')"
    by (auto simp: step_def split: sum.splits)
  with W show ?thesis
    by (rule futures_allocated_send)
next
  case (RecvRun work)
  with S have J: "enqueueRecv_job cb load work a = Inr a'"
    by (simp add: step_def)
  then obtain msg where R: "received load work = Some msg"
    using enqueueRecv_job_Inr by blast
  note E = enqueueRecv_job_received [OF R, of cb a]
  show ?thesis
  proof (cases "isRequest msg")
    case True
    with J E obtain f where "send a (from_' work) (cb msg) = Inr (f, a')"
      by (auto split: sum.splits)
    with W show ?thesis
      by (rule futures_allocated_send)
  next
    case False
    with J E obtain p where
      "a' = a\<lparr>heap := (heap a)(p := markCompleted (Some msg) (heap a p)),
              futures_' := (futures_' a)(msg_id msg := None)\<rparr>"
      by (auto split: option.splits if_splits)
    with W show ?thesis
      by (simp add: futures_allocated_def)
  qed
qed

lemma futures_allocated_run:
  "futures_allocated a \<Longrightarrow> run cb load evs a = Inr a' \<Longrightarrow> futures_allocated a'"
proof (induction evs arbitrary: a)
  case Nil
  then show ?case by simp
next
  case (Cons ev evs)
  from Cons.prems(2) obtain b where b: "step cb load ev a = Inr b"
    and r: "run cb load evs b = Inr a'"
    by (auto split: sum.splits)
  from Cons.prems(1) b have "futures_allocated b"
    by (rule futures_allocated_step)
  then show ?case
    using r by (rule Cons.IH)
qed

text \<open>
  The counter does not come back to an id before \<open>2 ^ 64\<close> ids have been taken.
\<close>

lemma counter_not_back:
  fixes i :: int64_t
  assumes "Suc k < 2 ^ 64"
  shows "i + 1 + of_nat k \<noteq> i"
proof
  assume "i + 1 + of_nat k = i"
  then have "i + of_nat (Suc k) = i + 0"
    by (simp add: algebra_simps)
  then have "(of_nat (Suc k) :: int64_t) = 0"
    by (simp only: add_left_cancel)
  moreover have "(of_nat (Suc k) :: int64_t) \<noteq> 0"
    using assms by (intro of_nat_neq_0) simp_all
  ultimately show False by simp
qed

lemma pending_atI:
  assumes "futures_' a i = Some fut" and "\<And>k. futures_' a k = Some fut \<Longrightarrow> k = i"
    and "fut < allocated a" and "\<not> completed (heap a fut)"
    and "k \<le> n" and "nextId_' a = i + 1 + of_nat k"
  shows "pending_at i fut n a"
  unfolding pending_at_def using assms by blast

lemma pending_atD:
  assumes "pending_at i fut n a"
  shows "futures_' a i = Some fut" and "\<And>j. futures_' a j = Some fut \<Longrightarrow> j = i"
    and "fut < allocated a" and "\<not> completed (heap a fut)"
    and "\<exists>k\<le>n. nextId_' a = i + 1 + of_nat k"
  using assms unfolding pending_at_def by blast+

lemma pending_at_send:
  assumes P: "pending_at i fut n a" and S: "send a to m = Inr (f, a')"
    and n: "Suc n < 2 ^ 64"
  shows "pending_at i fut (Suc n) a'"
proof -
  note reg = pending_atD(1) [OF P] and uniq = pending_atD(2) [OF P]
    and al = pending_atD(3) [OF P] and pend = pending_atD(4) [OF P]
  from pending_atD(5) [OF P] obtain k where k: "k \<le> n" "nextId_' a = i + 1 + of_nat k"
    by blast
  note F = send_Inr(8) [OF S] and H = send_Inr(9) [OF S] and A = send_Inr(7) [OF S]
  have ne: "nextId_' a \<noteq> i"
    unfolding k(2) using k(1) n by (intro counter_not_back) simp
  show ?thesis
  proof (rule pending_atI)
    show "futures_' a' i = Some fut"
      using reg ne by (simp add: F)
    show "j = i" if "futures_' a' j = Some fut" for j
    proof (cases "isRequest m \<and> j = nextId_' a")
      case True
      with that al show ?thesis by (simp add: F)
    next
      case False
      with that have "futures_' a j = Some fut"
        by (auto simp: F split: if_splits)
      then show ?thesis by (rule uniq)
    qed
    show "fut < allocated a'"
      using al by (simp add: A)
    show "\<not> completed (heap a' fut)"
      using al pend by (simp add: H)
    show "Suc k \<le> Suc n"
      using k(1) by simp
    show "nextId_' a' = i + 1 + of_nat (Suc k)"
      using send_Inr(6) [OF S] k(2) by simp
  qed
qed

lemma pending_at_step:
  assumes P: "pending_at i fut n a" and S: "step cb load ev a = Inr a'"
    and A: "\<not> answers load i ev" and n: "Suc n < 2 ^ 64"
  shows "pending_at i fut (Suc n) a'"
proof (cases ev)
  case (SendCall to m)
  with S obtain f where "send a to m = Inr (f, a')"
    by (auto simp: step_def split: sum.splits)
  then show ?thesis
    by (rule pending_at_send [OF P _ n])
next
  case (RecvRun work)
  with S have J: "enqueueRecv_job cb load work a = Inr a'"
    by (simp add: step_def)
  then obtain msg where R: "received load work = Some msg"
    using enqueueRecv_job_Inr by blast
  note E = enqueueRecv_job_received [OF R, of cb a]
  show ?thesis
  proof (cases "isRequest msg")
    case True
    with J E obtain f where "send a (from_' work) (cb msg) = Inr (f, a')"
      by (auto split: sum.splits)
    then show ?thesis
      by (rule pending_at_send [OF P _ n])
  next
    case False
    with J E have resp: "isResponse msg"
      by (auto split: if_splits)
    with A R RecvRun have ne: "msg_id msg \<noteq> i"
      by (auto simp: answers_def)
    from J E False resp obtain p where p: "futures_' a (msg_id msg) = Some p"
      and a': "a' = a\<lparr>heap := (heap a)(p := markCompleted (Some msg) (heap a p)),
                       futures_' := (futures_' a)(msg_id msg := None)\<rparr>"
      by (auto split: option.splits)
    note reg = pending_atD(1) [OF P] and uniq = pending_atD(2) [OF P]
      and al = pending_atD(3) [OF P] and pend = pending_atD(4) [OF P]
    from pending_atD(5) [OF P] obtain k where k: "k \<le> n" "nextId_' a = i + 1 + of_nat k"
      by blast
    from uniq p ne have pf: "p \<noteq> fut"
      by blast
    show ?thesis
    proof (rule pending_atI)
      show "futures_' a' i = Some fut"
        using reg ne by (simp add: a')
      show "j = i" if "futures_' a' j = Some fut" for j
      proof -
        from that have "futures_' a j = Some fut"
          by (simp add: a' split: if_splits)
        then show ?thesis by (rule uniq)
      qed
      show "fut < allocated a'"
        using al by (simp add: a')
      show "\<not> completed (heap a' fut)"
        using pend pf by (simp add: a')
      show "k \<le> Suc n"
        using k(1) by simp
      show "nextId_' a' = i + 1 + of_nat k"
        using k(2) by (simp add: a')
    qed
  qed
qed

lemma pending_at_run:
  assumes "pending_at i fut n a" and "run cb load evs a = Inr a'"
    and "\<forall>ev\<in>set evs. \<not> answers load i ev" and "n + length evs < 2 ^ 64"
  shows "pending_at i fut (n + length evs) a'"
  using assms
proof (induction evs arbitrary: a n)
  case Nil
  then show ?case by simp
next
  case (Cons ev evs)
  from Cons.prems(2) obtain b where b: "step cb load ev a = Inr b"
    and r: "run cb load evs b = Inr a'"
    by (auto split: sum.splits)
  have "pending_at i fut (Suc n) b"
    using Cons.prems(1) b Cons.prems(3,4) by (intro pending_at_step [of i fut n a cb load ev b]) auto
  then have "pending_at i fut (Suc n + length evs) a'"
    using r Cons.prems(3,4) by (intro Cons.IH) auto
  then show ?case by simp
qed

lemma pending_at_after_send:
  assumes W: "futures_allocated a" and Q: "isRequest m" and S: "send a to m = Inr (fut, a1)"
  shows "pending_at (nextId_' a) fut 0 a1"
proof (rule pending_atI)
  note F = send_Inr(8) [OF S] and H = send_Inr(9) [OF S] and A = send_Inr(7) [OF S]
    and f = send_Inr(5) [OF S]
  show "futures_' a1 (nextId_' a) = Some fut"
    using Q by (simp add: F f)
  show "j = nextId_' a" if "futures_' a1 j = Some fut" for j
  proof (rule ccontr)
    assume "j \<noteq> nextId_' a"
    with that Q have "futures_' a j = Some (allocated a)"
      by (simp add: F f)
    with W show False
      unfolding futures_allocated_def by fastforce
  qed
  show "fut < allocated a1"
    by (simp add: A f)
  show "\<not> completed (heap a1 fut)"
    using Q by (simp add: H f)
  show "(0::nat) \<le> 0"
    by simp
  show "nextId_' a1 = nextId_' a + 1 + of_nat 0"
    using send_Inr(6) [OF S] by simp
qed

lemma pending_at_answer:
  assumes P: "pending_at i fut n a" and R: "received load work = Some r"
    and resp: "isResponse r" and i: "msg_id r = i"
  shows "\<exists>a'. enqueueRecv_job cb load work a = Inr a' \<and>
           heap a' fut = \<lparr>completed = True, message_of = Some r\<rparr> \<and>
           futures_' a' i = None"
proof -
  have nr: "\<not> isRequest r"
    using resp by (simp add: isRequest_def isResponse_def)
  have reg: "futures_' a (msg_id r) = Some fut"
    using P i by (simp add: pending_at_def)
  show ?thesis
    unfolding enqueueRecv_job_received [OF R] using nr resp i reg
    by (simp add: markCompleted_def)
qed

text \<open>
  Claim C6. \<open>send\<close> of a REQUEST queues the message with the id it took from
  the counter and returns a future that is not completed. The future stays uncompleted
  along every run of further calls of \<open>send\<close> and receive jobs (fewer than \<open>2 ^ 64\<close>
  of them) in which no RESPONSE carrying that id is received; the receive job of a
  RESPONSE carrying that id then completes the future with exactly that message.
\<close>

theorem send_request_future:
  assumes "futures_allocated a" and "isRequest m"
    and "send a to m = Inr (fut, a1)"
    and "run cb load evs a1 = Inr a2"
    and "\<forall>ev\<in>set evs. \<not> answers load (nextId_' a) ev"
    and "length evs < 2 ^ 64"
    and "received load work = Some r" and "isResponse r" and "msg_id r = nextId_' a"
  shows "threadPool_' a1 = threadPool_' a @
           [SendJob \<lparr>to_' = workerIds_' a ! nat (id_' to),
                     message_' = setId (nextId_' a) m\<rparr>] \<and>
         \<not> completed (heap a1 fut) \<and> \<not> completed (heap a2 fut) \<and>
         (\<exists>a3. enqueueRecv_job cb load work a2 = Inr a3 \<and>
               heap a3 fut = \<lparr>completed = True, message_of = Some r\<rparr>)"
proof -
  have Q: "threadPool_' a1 = threadPool_' a @
           [SendJob \<lparr>to_' = workerIds_' a ! nat (id_' to),
                     message_' = setId (nextId_' a) m\<rparr>]"
    using send_Inr(10) [OF assms(3)] assms(2) by simp
  have P1: "pending_at (nextId_' a) fut 0 a1"
    using assms(1,2,3) by (rule pending_at_after_send)
  have P2: "pending_at (nextId_' a) fut (0 + length evs) a2"
    using P1 assms(4,5) by (rule pending_at_run) (use assms(6) in simp)
  from pending_at_answer [OF P2 assms(7,8,9), of cb]
  obtain a3 where "enqueueRecv_job cb load work a2 = Inr a3"
    and "heap a3 fut = \<lparr>completed = True, message_of = Some r\<rparr>"
    by blast
  with Q pending_atD(4) [OF P1] pending_atD(4) [OF P2] show ?thesis
    by blast
qed

theorem send_request_future_witness:
  "\<exists>fut a1 a2 a3.
     send two_workers worker_b ping = Inr (fut, a1) \<and>
     run (\<lambda>m. pong) load_id0
       [SendCall worker_b pong, RecvRun (work_of REQUEST [1])] a1 = Inr a2 \<and>
     \<not> completed (heap a1 fut) \<and> \<not> completed (heap a2 fut) \<and>
     enqueueRecv_job (\<lambda>m. pong) load_id0 (work_of RESPONSE [112, 111, 110, 103]) a2 = Inr a3 \<and>
     heap a3 fut = \<lparr>completed = True, message_of = Some pong\<rparr>"
proof -
  let ?cb = "\<lambda>m::Message. pong"
  let ?evs = "[SendCall worker_b pong, RecvRun (work_of REQUEST [1])]"
  have valid: "id_' worker_b \<noteq> getRank (pg_' b) \<and> id_' worker_b < int (getSize (pg_' b)) \<and>
      0 \<le> id_' worker_b \<and> id_' worker_b < int (length (workerIds_' b))"
    if "pg_' b = pg_' two_workers" and "workerIds_' b = workerIds_' two_workers" for b :: Agent
    using that by (simp add: worker_b_def two_workers_def)
  have sv: "\<exists>b'. send b worker_b m = Inr (allocated b, b')"
    if "pg_' b = pg_' two_workers" and "workerIds_' b = workerIds_' two_workers"
    for b :: Agent and m
    using valid [OF that] by (intro send_valid) simp_all
  obtain a1 where s1: "send two_workers worker_b ping = Inr (0, a1)"
    using sv [of two_workers ping] by (auto simp: two_workers_def)
  note k1 = send_Inr(12) [OF s1] send_Inr(11) [OF s1]
  obtain f2 b2 where s2: "send a1 worker_b pong = Inr (f2, b2)"
    using sv [of a1 pong] k1 by auto
  note k2 = send_Inr(12) [OF s2] send_Inr(11) [OF s2]
  obtain f3 a2 where s3: "send b2 worker_b pong = Inr (f3, a2)"
    using sv [of b2 pong] k1 k2 by auto
  have r1: "received load_id0 (work_of REQUEST [1])
      = Some \<lparr>payload = [1], tensors = [], msg_type = REQUEST, msg_id = 0\<rparr>"
    by (rule received_work_of) simp
  have e2: "enqueueRecv_job ?cb load_id0 (work_of REQUEST [1]) b2 = Inr a2"
    unfolding enqueueRecv_job_received [OF r1]
    using s3 by (simp add: isRequest_def work_of_def)
  have rn: "run ?cb load_id0 ?evs a1 = Inr a2"
    using s2 e2 by (simp add: step_def)
  have na: "\<forall>ev\<in>set ?evs. \<not> answers load_id0 (nextId_' two_workers) ev"
    by (simp add: answers_def r1 isResponse_def)
  have r2: "received load_id0 (work_of RESPONSE [112, 111, 110, 103]) = Some pong"
    unfolding pong_def by (rule received_work_of) simp
  have "threadPool_' a1 = threadPool_' two_workers @
           [SendJob \<lparr>to_' = workerIds_' two_workers ! nat (id_' worker_b),
                     message_' = setId (nextId_' two_workers) ping\<rparr>] \<and>
      \<not> completed (heap a1 0) \<and> \<not> completed (heap a2 0) \<and>
      (\<exists>a3. enqueueRecv_job ?cb load_id0 (work_of RESPONSE [112, 111, 110, 103]) a2 = Inr a3 \<and>
            heap a3 0 = \<lparr>completed = True, message_of = Some pong\<rparr>)"
    using send_request_future [of two_workers ping worker_b 0 a1 ?cb load_id0 ?evs a2
        "work_of RESPONSE [112, 111, 110, 103]" pong] s1 rn na r2
    by (simp add: futures_allocated_def two_workers_def isRequest_def isResponse_def
        ping_def pong_def)
  with s1 rn show ?thesis
    by blast
qed

end
